theory Spec2Isabelle
  imports Complex_Main
begin

section \<open>Configuration constants\<close>

text \<open>
  The constants of the CONFIG block of \<^verbatim>\<open>interfazpinkaversijala.py\<close>. Times are
  milliseconds. Python's integers are unbounded, so they are \<^typ>\<open>int\<close>; the clock
  value \<^verbatim>\<open>time.time()*1000\<close> is a float and is modelled as a \<^typ>\<open>real\<close>.
\<close>

definition RATE_LIMIT_MS :: int where
  "RATE_LIMIT_MS = 160"

definition MAX_FAILS :: int where
  "MAX_FAILS = 4"

definition DIST_HISTORY_LEN :: nat where
  "DIST_HISTORY_LEN = 120"

section \<open>Python primitives used by the program\<close>

text \<open>\<^verbatim>\<open>int(x)\<close> on a float truncates towards zero.\<close>

definition py_int :: "real \<Rightarrow> int" where
  "py_int x = (if 0 \<le> x then \<lfloor>x\<rfloor> else \<lceil>x\<rceil>)"

text \<open>
  \<^verbatim>\<open>str.strip()\<close> removes leading and trailing whitespace. A character is a code
  point below 256 here; the whitespace code points in that range are 9 to 13, 28 to 32,
  133 and 160.
\<close>

definition py_isspace :: "char \<Rightarrow> bool" where
  "py_isspace c = (let n = (of_char c :: nat) in
     (9 \<le> n \<and> n \<le> 13) \<or> (28 \<le> n \<and> n \<le> 32) \<or> n = 133 \<or> n = 160)"

definition py_strip :: "string \<Rightarrow> string" where
  "py_strip s = rev (dropWhile py_isspace (rev (dropWhile py_isspace s)))"

text \<open>Decimal rendering of an integer, as an f-string prints it.\<close>

fun dec_nat :: "nat \<Rightarrow> string" where
  "dec_nat n = (if n < 10 then [''0123456789'' ! n]
                else dec_nat (n div 10) @ [''0123456789'' ! (n mod 10)])"

definition py_str_int :: "int \<Rightarrow> string" where
  "py_str_int i = (if i < 0 then ''-'' @ dec_nat (nat (- i)) else dec_nat (nat i))"

section \<open>CommandSender\<close>

text \<open>
  The fields of a \<^verbatim>\<open>CommandSender\<close> that its methods read and write. The lock is not
  a field of the model: every \<^verbatim>\<open>with self.lock\<close> block is one atomic update below.
\<close>

record command_sender =
  pending :: "string option"
  inflight :: bool
  last_ts :: real
  fail_count :: int
  shutdown :: bool

definition init_sender :: command_sender where
  "init_sender = \<lparr>pending = None, inflight = False, last_ts = 0, fail_count = 0,
                  shutdown = False\<rparr>"

text \<open>
  What a method does besides updating the fields: it starts a worker thread
  (\<open>Spawn\<close>), schedules \<^verbatim>\<open>_pump\<close> after some milliseconds (\<open>After\<close>), issues
  \<^verbatim>\<open>requests.get\<close> on a URL (\<open>Get\<close>), or calls one of the two callbacks.
\<close>

datatype effect =
    Spawn
  | After int
  | Get string
  | SoftError string
  | HardDisconnect string

text \<open>The locked part of \<^verbatim>\<open>queue\<close>: the pending slot is overwritten.\<close>

definition set_pending :: "string \<Rightarrow> command_sender \<Rightarrow> command_sender" where
  "set_pending cmd s = s\<lparr>pending := Some cmd\<rparr>"

text \<open>\<^verbatim>\<open>_pump\<close> at clock value \<open>now\<close>. It changes no field.\<close>

definition pump :: "real \<Rightarrow> command_sender \<Rightarrow> effect list" where
  "pump now s =
     (if inflight s \<or> pending s = None \<or> shutdown s then []
      else let wait_ms = max 0 (RATE_LIMIT_MS - py_int (now - last_ts s))
           in if wait_ms > 0 then [After wait_ms] else [Spawn])"

definition soft_msg :: "int \<Rightarrow> string" where
  "soft_msg fc = ''Intento fallido ('' @ py_str_int fc @ ''/'' @ py_str_int MAX_FAILS @ '')''"

definition hard_msg :: string where
  "hard_msg = ''M'' @ [char_of (250::nat)] @ ''ltiples fallos de env'' @ [char_of (237::nat)] @ ''o.''"

definition register_fail :: "command_sender \<Rightarrow> command_sender \<times> effect list" where
  "register_fail s =
     (let s' = s\<lparr>fail_count := fail_count s + 1\<rparr>;
          fc = fail_count s'
      in if fc < MAX_FAILS
         then (s', [SoftError (soft_msg fc), After (min 2000 (fc * 200))])
         else (s', [HardDisconnect hard_msg]))"

definition shutdown_sender :: "command_sender \<Rightarrow> command_sender" where
  "shutdown_sender s = s\<lparr>shutdown := True, pending := None\<rparr>"

text \<open>
  The worker \<^verbatim>\<open>_send\<close>. A worker is \<open>Spawned\<close> until it enters its first locked
  block; it is \<open>InGet cmd\<close> while \<^verbatim>\<open>requests.get\<close> for \<open>cmd\<close> is outstanding; it is
  \<open>Finished\<close> once it has returned.
\<close>

datatype wstate = Spawned | InGet string | Finished

text \<open>The \<^verbatim>\<open>finally\<close> block and the re-arming of the pump that follows it.\<close>

definition send_finally :: "command_sender \<times> effect list \<Rightarrow> command_sender \<times> effect list" where
  "send_finally r = (case r of (s, es) \<Rightarrow> (s\<lparr>inflight := False\<rparr>, es @ [After 0]))"

text \<open>
  From the entry of \<^verbatim>\<open>_send\<close> to the call of \<^verbatim>\<open>requests.get\<close>. \<open>ip_raw\<close> is what
  \<^verbatim>\<open>get_ip()\<close> returns at that moment. An empty address raises inside the
  \<^verbatim>\<open>try\<close>, so the \<^verbatim>\<open>except\<close> branch, the \<^verbatim>\<open>finally\<close> block and the re-arming run
  at once and the worker ends without a request.
\<close>

definition send_start :: "string \<Rightarrow> command_sender \<Rightarrow> command_sender \<times> effect list \<times> wstate" where
  "send_start ip_raw s =
     (case pending s of
        None \<Rightarrow> (s\<lparr>inflight := False\<rparr>, [], Finished)
      | Some cmd_local \<Rightarrow>
          if shutdown s then (s\<lparr>inflight := False\<rparr>, [], Finished)
          else let s1 = s\<lparr>pending := None, inflight := True\<rparr>;
                   ip = py_strip ip_raw
               in if ip = []
                  then (case send_finally (register_fail s1) of (s2, es) \<Rightarrow> (s2, es, Finished))
                  else (s1, [Get (''http://'' @ ip @ ''/'' @ cmd_local)], InGet cmd_local))"

text \<open>
  From the return of \<^verbatim>\<open>requests.get\<close> to the end of \<^verbatim>\<open>_send\<close>. \<open>resp\<close> is the
  status code of the response, or \<open>None\<close> when the call raised; \<open>now\<close> is the clock
  value read on success.
\<close>

definition send_response :: "int option \<Rightarrow> real \<Rightarrow> command_sender \<Rightarrow> command_sender \<times> effect list" where
  "send_response resp now s =
     send_finally
       (case resp of
          None \<Rightarrow> register_fail s
        | Some code \<Rightarrow>
            if code = 200 then (s\<lparr>fail_count := 0, last_ts := now\<rparr>, [])
            else register_fail s)"

section \<open>The sender with its worker threads and timers\<close>

text \<open>
  The threads of one \<^verbatim>\<open>CommandSender\<close> interleave between locked blocks. A
  configuration holds the sender, the workers started so far, the number of scheduled
  \<^verbatim>\<open>_pump\<close> calls that have not run yet, and everything done so far in order.
\<close>

record sys =
  disp :: command_sender
  workers :: "wstate list"
  timers :: nat
  trace :: "effect list"

definition init_sys :: sys where
  "init_sys = \<lparr>disp = init_sender, workers = [], timers = 0, trace = []\<rparr>"

fun sched :: "sys \<Rightarrow> effect \<Rightarrow> sys" where
  "sched c Spawn = c\<lparr>workers := workers c @ [Spawned]\<rparr>"
| "sched c (After ms) = c\<lparr>timers := timers c + 1\<rparr>"
| "sched c (Get url) = c"
| "sched c (SoftError m) = c"
| "sched c (HardDisconnect m) = c"

definition emit :: "effect list \<Rightarrow> sys \<Rightarrow> sys" where
  "emit es c = (foldl sched c es)\<lparr>trace := trace c @ es\<rparr>"

text \<open>
  One step of one thread: a call of \<^verbatim>\<open>queue\<close> at clock value \<open>now\<close>; a scheduled
  \<^verbatim>\<open>_pump\<close> that runs at \<open>now\<close>; worker \<open>i\<close> running up to its request, where
  \<^verbatim>\<open>get_ip()\<close> returns \<open>ip\<close>; the request of worker \<open>i\<close> returning \<open>resp\<close> at
  \<open>now\<close>; a call of \<^verbatim>\<open>shutdown_sender\<close>. A step that names no such thread changes
  nothing.
\<close>

datatype action =
    AQueue string real
  | ATimer real
  | AStart nat string
  | AFinish nat "int option" real
  | AShutdown

fun step :: "sys \<Rightarrow> action \<Rightarrow> sys" where
  "step c (AQueue cmd now) =
     (let s = set_pending cmd (disp c) in emit (pump now s) (c\<lparr>disp := s\<rparr>))"
| "step c (ATimer now) =
     (if timers c = 0 then c
      else emit (pump now (disp c)) (c\<lparr>timers := timers c - 1\<rparr>))"
| "step c (AStart i ip) =
     (if i < length (workers c) \<and> workers c ! i = Spawned
      then (case send_start ip (disp c) of
              (s, es, w) \<Rightarrow> emit es (c\<lparr>disp := s, workers := (workers c)[i := w]\<rparr>))
      else c)"
| "step c (AFinish i resp now) =
     (if i < length (workers c)
      then (case workers c ! i of
              InGet cmd \<Rightarrow>
                (case send_response resp now (disp c) of
                   (s, es) \<Rightarrow> emit es (c\<lparr>disp := s, workers := (workers c)[i := Finished]\<rparr>))
            | Spawned \<Rightarrow> c
            | Finished \<Rightarrow> c)
      else c)"
| "step c AShutdown = c\<lparr>disp := shutdown_sender (disp c)\<rparr>"

definition exec :: "sys \<Rightarrow> action list \<Rightarrow> sys" where
  "exec c acts = foldl step c acts"

text \<open>The URLs requested, the hard-disconnect events and the outstanding requests.\<close>

fun gets :: "effect list \<Rightarrow> string list" where
  "gets [] = []"
| "gets (Get url # es) = url # gets es"
| "gets (Spawn # es) = gets es"
| "gets (After ms # es) = gets es"
| "gets (SoftError m # es) = gets es"
| "gets (HardDisconnect m # es) = gets es"

fun hard_events :: "effect list \<Rightarrow> string list" where
  "hard_events [] = []"
| "hard_events (HardDisconnect m # es) = m # hard_events es"
| "hard_events (Spawn # es) = hard_events es"
| "hard_events (After ms # es) = hard_events es"
| "hard_events (Get url # es) = hard_events es"
| "hard_events (SoftError m # es) = hard_events es"

fun in_get :: "wstate \<Rightarrow> bool" where
  "in_get (InGet cmd) = True"
| "in_get Spawned = False"
| "in_get Finished = False"

definition outstanding :: "sys \<Rightarrow> nat" where
  "outstanding c = length (filter in_get (workers c))"

section \<open>Application state and callbacks\<close>

text \<open>
  The module-level state that the sender's callbacks and \<^verbatim>\<open>_send_pwm\<close> touch:
  \<^verbatim>\<open>estado["conectado"]\<close>, the status label (text and colour), the error dialogs
  shown, \<^verbatim>\<open>_last_vel_ts\<close>, \<^verbatim>\<open>_last_vel_val\<close> and the speed shown in
  \<^verbatim>\<open>speed_text\<close> (the number, before it is printed with two decimals).
\<close>

record app =
  conectado :: bool
  lbl_status :: "string \<times> string"
  dialogs :: "(string \<times> string) list"
  last_vel_ts :: real
  last_vel_val :: int
  speed_kmh :: real

definition init_app :: app where
  "init_app = \<lparr>conectado = False, lbl_status = (''Desconectado'', ''#ff6b81''), dialogs = [],
               last_vel_ts = 0, last_vel_val = - 1, speed_kmh = 0\<rparr>"

definition ACCENT2 :: string where
  "ACCENT2 = ''#9b59b6''"


text \<open>The two callbacks given to the \<^verbatim>\<open>sender\<close> instance.\<close>

definition on_soft_error :: "string \<Rightarrow> app \<Rightarrow> app" where
  "on_soft_error m g = g\<lparr>lbl_status := (m, ACCENT2)\<rparr>"

definition on_hard_disconnect :: "string \<Rightarrow> app \<Rightarrow> app" where
  "on_hard_disconnect m g =
     g\<lparr>lbl_status := (''Desconectado'', ''#ff6b81''),
       dialogs := dialogs g @ [(''Desconexi'' @ [char_of (243::nat)] @ ''n'', m)]\<rparr>"

fun deliver :: "app \<Rightarrow> effect \<Rightarrow> app" where
  "deliver g (SoftError m) = on_soft_error m g"
| "deliver g (HardDisconnect m) = on_hard_disconnect m g"
| "deliver g Spawn = g"
| "deliver g (After ms) = g"
| "deliver g (Get url) = g"

section \<open>PWM\<close>


section \<open>Distance parsing\<close>

text \<open>
  What \<^verbatim>\<open>r.json()\<close> can return. An object is the list of its items. Numbers are
  reals: the values \<^verbatim>\<open>nan\<close> and \<^verbatim>\<open>inf\<close> are outside the model.
\<close>

datatype json =
    JNull
  | JBool bool
  | JNum real
  | JStr string
  | JArr "json list"
  | JObj "(string \<times> json) list"

text \<open>
  A response as the parser sees it: the result of \<^verbatim>\<open>r.json()\<close> (\<open>None\<close> when it
  raises) and \<^verbatim>\<open>r.text\<close>.
\<close>

record response =
  json_result :: "json option"
  text_body :: string

definition py_lower_char :: "char \<Rightarrow> char" where
  "py_lower_char c = (let n = (of_char c :: nat) in
     if (65 \<le> n \<and> n \<le> 90) \<or> (192 \<le> n \<and> n \<le> 222 \<and> n \<noteq> 215) then char_of (n + 32) else c)"

definition py_lower :: "string \<Rightarrow> string" where
  "py_lower s = map py_lower_char s"

definition comma_to_dot :: "string \<Rightarrow> string" where
  "comma_to_dot s = map (\<lambda>c. if c = CHR '','' then CHR ''.'' else c) s"

text \<open>
  \<^verbatim>\<open>float(v)\<close> on a JSON value; \<open>None\<close> when it raises. \<open>fl\<close> is \<^verbatim>\<open>float\<close> on a
  string, a builtin taken as a parameter.
\<close>

fun py_float :: "(string \<Rightarrow> real option) \<Rightarrow> json \<Rightarrow> real option" where
  "py_float fl (JNum x) = Some x"
| "py_float fl (JBool b) = Some (if b then 1 else 0)"
| "py_float fl (JStr t) = fl t"
| "py_float fl JNull = None"
| "py_float fl (JArr xs) = None"
| "py_float fl (JObj kvs) = None"

text \<open>The \<^verbatim>\<open>except\<close> branch of the parser, and the \<^verbatim>\<open>return None\<close> after it.\<close>

definition parse_fallback :: "(string \<Rightarrow> real option) \<Rightarrow> response \<Rightarrow> real option" where
  "parse_fallback fl r =
     (let txt = py_strip (text_body r)
      in if txt \<noteq> [] \<and> py_lower txt \<noteq> ''null'' then fl (comma_to_dot txt) else None)"

definition parse_distance_response :: "(string \<Rightarrow> real option) \<Rightarrow> response \<Rightarrow> real option" where
  "parse_distance_response fl r =
     (case json_result r of
        None \<Rightarrow> parse_fallback fl r
      | Some j \<Rightarrow>
          (case j of
             JObj kvs \<Rightarrow>
               (case map_of kvs ''cm'' of
                  None \<Rightarrow> None
                | Some v \<Rightarrow>
                    (case py_float fl v of
                       Some x \<Rightarrow> Some x
                     | None \<Rightarrow> parse_fallback fl r))
           | JNull \<Rightarrow> None
           | JBool b \<Rightarrow> None
           | JNum x \<Rightarrow> None
           | JStr t \<Rightarrow> None
           | JArr xs \<Rightarrow> None))"

section \<open>Distance history\<close>

text \<open>
  \<^verbatim>\<open>collections.deque(maxlen=n).append(x)\<close>: the element goes to the right end, and
  when the deque is then longer than \<open>n\<close> the leftmost element is removed.
\<close>

definition deque_append :: "nat \<Rightarrow> 'a \<Rightarrow> 'a list \<Rightarrow> 'a list" where
  "deque_append maxlen x xs = (let ys = xs @ [x] in if length ys > maxlen then tl ys else ys)"

text \<open>
  \<^verbatim>\<open>append_dist(d)\<close>: the new history and the value handed to \<^verbatim>\<open>draw_radar\<close>.
  The drawing itself is not modelled.
\<close>

definition append_dist :: "real option \<Rightarrow> real option list \<Rightarrow> real option list \<times> real option" where
  "append_dist d h =
     (let h' = deque_append DIST_HISTORY_LEN d h
      in (h', if length h' > 0 then last h' else None))"

definition push_all :: "real option list \<Rightarrow> real option list \<Rightarrow> real option list" where
  "push_all h ds = foldl (\<lambda>h d. fst (append_dist d h)) h ds"

section \<open>Schedules\<close>





section \<open>Scenarios\<close>

text \<open>
  Five commands, each queued after the previous request has failed: every worker finds
  the address \<^verbatim>\<open>192.168.0.101\<close> and every request raises.
\<close>

definition five_failures :: "action list" where
  "five_failures =
     [AQueue ''adelante'' 1000, AStart 0 ''192.168.0.101'', AFinish 0 None 2500,
      AQueue ''adelante'' 3000, AStart 1 ''192.168.0.101'', AFinish 1 None 4500,
      AQueue ''adelante'' 5000, AStart 2 ''192.168.0.101'', AFinish 2 None 6500,
      AQueue ''adelante'' 7000, AStart 3 ''192.168.0.101'', AFinish 3 None 8500,
      AQueue ''adelante'' 9000, AStart 4 ''192.168.0.101'', AFinish 4 None 10500]"

text \<open>A sender that has already failed \<^verbatim>\<open>MAX_FAILS\<close> times in a row.\<close>

definition escalated :: sys where
  "escalated = init_sys\<lparr>disp := init_sender\<lparr>fail_count := 4\<rparr>\<rparr>"

text \<open>121 distinct samples, one more than the history holds.\<close>

definition samples121 :: "real option list" where
  "samples121 = map (\<lambda>i. Some (real i)) [0..<121]"


text \<open>
  Two commands queued back to back, before the worker started for the first has entered
  its locked block; then a third command.
\<close>

definition overlap_prefix :: "action list" where
  "overlap_prefix =
     [AQueue ''adelante'' 1000, AQueue ''atras'' 1000,
      AStart 0 ''192.168.0.101'', AStart 1 ''192.168.0.101'']"

definition overlap_run :: "action list" where
  "overlap_run = overlap_prefix @ [AQueue ''detener'' 1001, AStart 2 ''192.168.0.101'']"




section \<open>Evaluation rules\<close>

declare dec_nat.simps [simp del]

lemmas consts_defs = RATE_LIMIT_MS_def MAX_FAILS_def

lemmas sender_defs = set_pending_def pump_def register_fail_def send_finally_def send_start_def
  send_response_def shutdown_sender_def init_sender_def soft_msg_def py_str_int_def py_int_def

lemmas sys_defs = exec_def emit_def init_sys_def

lemma py_strip_ip: "py_strip ''192.168.0.101'' = ''192.168.0.101''"
  by (simp add: py_strip_def py_isspace_def)

lemma py_strip_blank: "py_strip ''  '' = []"
  by (simp add: py_strip_def py_isspace_def)


section \<open>Facts about single steps\<close>





lemma gets_register_fail: "gets (snd (register_fail s)) = []"
  by (simp add: register_fail_def Let_def)

lemma register_fail_keeps:
  "pending (fst (register_fail s)) = pending s"
  "shutdown (fst (register_fail s)) = shutdown s"
  by (simp_all add: register_fail_def Let_def)



section \<open>Failure handling\<close>

text \<open>
  C6. A failure that brings \<^verbatim>\<open>fail_count\<close> to a value \<open>n\<close> below \<^verbatim>\<open>MAX_FAILS\<close>
  stores \<open>n\<close>, calls \<^verbatim>\<open>on_soft_error\<close> with the message that carries \<open>n\<close> and
  \<^verbatim>\<open>MAX_FAILS\<close>, and schedules the pump after \<open>min 2000 (n * 200)\<close> milliseconds.
\<close>

theorem C6_soft_error_linear_backoff:
  assumes "fail_count s + 1 < MAX_FAILS"
  shows "register_fail s =
     (s\<lparr>fail_count := fail_count s + 1\<rparr>,
      [SoftError (''Intento fallido ('' @ py_str_int (fail_count s + 1) @ ''/4)''),
       After (min 2000 ((fail_count s + 1) * 200))])"
  using assms
  by (simp add: register_fail_def Let_def soft_msg_def MAX_FAILS_def py_str_int_def dec_nat.simps)

text \<open>
  Three failures in a row on a fresh sender: counts 1/4, 2/4, 3/4 and delays of 200, 400
  and 600 milliseconds.
\<close>

theorem C6_three_failures_witness:
  "fail_count init_sender + 1 < MAX_FAILS \<and>
   register_fail init_sender =
     (init_sender\<lparr>fail_count := 1\<rparr>, [SoftError ''Intento fallido (1/4)'', After 200]) \<and>
   register_fail (init_sender\<lparr>fail_count := 1\<rparr>) =
     (init_sender\<lparr>fail_count := 2\<rparr>, [SoftError ''Intento fallido (2/4)'', After 400]) \<and>
   register_fail (init_sender\<lparr>fail_count := 2\<rparr>) =
     (init_sender\<lparr>fail_count := 3\<rparr>, [SoftError ''Intento fallido (3/4)'', After 600])"
proof -
  have a: "fail_count init_sender + 1 < MAX_FAILS"
    by (simp add: init_sender_def MAX_FAILS_def)
  have b: "fail_count (init_sender\<lparr>fail_count := 1\<rparr>) + 1 < MAX_FAILS"
    by (simp add: MAX_FAILS_def)
  have c: "fail_count (init_sender\<lparr>fail_count := 2\<rparr>) + 1 < MAX_FAILS"
    by (simp add: MAX_FAILS_def)
  show ?thesis
    using a C6_soft_error_linear_backoff [OF a] C6_soft_error_linear_backoff [OF b]
      C6_soft_error_linear_backoff [OF c]
    by (simp add: init_sender_def py_str_int_def dec_nat.simps)
qed

text \<open>
  C1, as claimed, asks for one hard-disconnect event and no send after it. Five failing
  sends in a row, each started by \<^verbatim>\<open>queue\<close>, all reach \<^verbatim>\<open>requests.get\<close>, and the
  fourth and the fifth each call \<^verbatim>\<open>on_hard_disconnect\<close>.
\<close>

theorem C1_counterexample:
  "hard_events (trace (exec init_sys five_failures)) = [hard_msg, hard_msg] \<and>
   length (gets (trace (exec init_sys five_failures))) = 5"
  by (simp add: five_failures_def sys_defs sender_defs consts_defs py_strip_ip dec_nat.simps Let_def)

text \<open>
  C1, amended. Once \<^verbatim>\<open>fail_count\<close> is at least \<^verbatim>\<open>MAX_FAILS - 1\<close>, a command queued
  on an idle sender after the rate-limit window is sent, and when that request fails
  \<^verbatim>\<open>on_hard_disconnect\<close> is called exactly once and no retry is scheduled by the
  failure handling. This holds at the threshold and at every later failure alike:
  nothing in \<^verbatim>\<open>_pump\<close> or \<^verbatim>\<open>_send\<close> reads \<^verbatim>\<open>fail_count\<close>.
\<close>

theorem C1_every_failure_past_threshold_escalates:
  assumes "MAX_FAILS \<le> fail_count (disp c) + 1"
    and "\<not> inflight (disp c)" and "\<not> shutdown (disp c)"
    and "real_of_int RATE_LIMIT_MS \<le> now - last_ts (disp c)"
    and "py_strip ip \<noteq> []"
    and "resp = None \<or> (\<exists>code. resp = Some code \<and> code \<noteq> 200)"
  shows "trace (exec c [AQueue cmd now, AStart (length (workers c)) ip,
                        AFinish (length (workers c)) resp now']) =
           trace c @ [Spawn, Get (''http://'' @ py_strip ip @ ''/'' @ cmd),
                      HardDisconnect hard_msg, After 0]
         \<and> fail_count (disp (exec c [AQueue cmd now, AStart (length (workers c)) ip,
                        AFinish (length (workers c)) resp now'])) = fail_count (disp c) + 1"
proof -
  have w: "py_int (now - last_ts (disp c)) \<ge> RATE_LIMIT_MS"
    using assms(4) by (simp add: py_int_def RATE_LIMIT_MS_def le_floor_iff)
  have p: "pump now (set_pending cmd (disp c)) = [Spawn]"
    using assms(2,3) w by (simp add: pump_def set_pending_def Let_def)
  show ?thesis
    using assms(1,3,5,6) p
    by (auto simp add: exec_def emit_def send_start_def send_response_def send_finally_def
        register_fail_def set_pending_def Let_def nth_append)
qed

theorem C1_witness:
  "MAX_FAILS \<le> fail_count (disp escalated) + 1 \<and>
   \<not> inflight (disp escalated) \<and> \<not> shutdown (disp escalated) \<and>
   real_of_int RATE_LIMIT_MS \<le> 1000 - last_ts (disp escalated) \<and>
   py_strip ''192.168.0.101'' \<noteq> [] \<and>
   trace (exec escalated [AQueue ''detener'' 1000, AStart 0 ''192.168.0.101'', AFinish 0 None 2500]) =
     [Spawn, Get ''http://192.168.0.101/detener'', HardDisconnect hard_msg, After 0] \<and>
   fail_count (disp (exec escalated
     [AQueue ''detener'' 1000, AStart 0 ''192.168.0.101'', AFinish 0 None 2500])) = 5"
proof -
  have h1: "MAX_FAILS \<le> fail_count (disp escalated) + 1"
    and h2: "\<not> inflight (disp escalated)" and h3: "\<not> shutdown (disp escalated)"
    and h4: "real_of_int RATE_LIMIT_MS \<le> 1000 - last_ts (disp escalated)"
    and h5: "py_strip ''192.168.0.101'' \<noteq> []"
    and h6: "(None :: int option) = None \<or> (\<exists>code. (None :: int option) = Some code \<and> code \<noteq> 200)"
    by (simp_all add: escalated_def init_sys_def init_sender_def consts_defs py_strip_ip)
  show ?thesis
    using h1 h2 h3 h4 h5
      C1_every_failure_past_threshold_escalates [OF h1 h2 h3 h4 h5 h6, of "''detener''" 2500]
    by (simp add: escalated_def init_sys_def init_sender_def py_strip_ip)
qed

section \<open>Empty address\<close>

text \<open>
  C4, as claimed, says that a send with an empty address leaves \<^verbatim>\<open>fail_count\<close> as it
  was. A worker that finds the address \<^verbatim>\<open>"  "\<close> raises inside the \<^verbatim>\<open>try\<close> and the
  handler counts it.
\<close>

theorem C4_counterexample:
  "fail_count (set_pending ''adelante'' init_sender) = 0 \<and>
   fail_count (fst (send_start ''  '' (set_pending ''adelante'' init_sender))) = 1"
  by (simp add: sender_defs consts_defs py_strip_blank dec_nat.simps Let_def)

text \<open>
  C4, amended. When the stripped address is empty the worker issues no request, runs
  the failure handling once (so \<^verbatim>\<open>fail_count\<close> grows by one), clears \<^verbatim>\<open>inflight\<close>,
  re-arms the pump and ends.
\<close>

theorem C4_empty_address_counts_as_failure:
  assumes "py_strip ip_raw = []" and "pending s = Some cmd" and "\<not> shutdown s"
  shows "send_start ip_raw s =
           (fst (register_fail (s\<lparr>pending := None\<rparr>))\<lparr>inflight := False\<rparr>,
            snd (register_fail (s\<lparr>pending := None\<rparr>)) @ [After 0], Finished)
         \<and> gets (fst (snd (send_start ip_raw s))) = []
         \<and> fail_count (fst (send_start ip_raw s)) = fail_count s + 1"
  using assms
  by (simp add: send_start_def send_finally_def register_fail_def Let_def)

theorem C4_witness:
  "py_strip ''  '' = [] \<and> pending (set_pending ''adelante'' init_sender) = Some ''adelante'' \<and>
   \<not> shutdown (set_pending ''adelante'' init_sender) \<and>
   send_start ''  '' (set_pending ''adelante'' init_sender) =
     (init_sender\<lparr>fail_count := 1\<rparr>, [SoftError ''Intento fallido (1/4)'', After 200, After 0],
      Finished)"
proof -
  have h1: "py_strip ''  '' = []" by (rule py_strip_blank)
  have h2: "pending (set_pending ''adelante'' init_sender) = Some ''adelante''"
    by (simp add: set_pending_def)
  have h3: "\<not> shutdown (set_pending ''adelante'' init_sender)"
    by (simp add: set_pending_def init_sender_def)
  show ?thesis
    using h1 h2 h3 C4_empty_address_counts_as_failure [OF h1 h2 h3]
    by (simp add: sender_defs consts_defs dec_nat.simps Let_def)
qed

section \<open>Connectivity flag\<close>

text \<open>
  C7, as claimed, says that the escalation sets \<^verbatim>\<open>estado["conectado"]\<close> to false.
  With the flag true and three failures counted, the fourth failure calls
  \<^verbatim>\<open>on_hard_disconnect\<close> and the flag is still true afterwards.
\<close>

theorem C7_counterexample:
  "hard_events (snd (register_fail (init_sender\<lparr>fail_count := 3\<rparr>))) = [hard_msg] \<and>
   conectado (foldl deliver (init_app\<lparr>conectado := True\<rparr>)
                (snd (register_fail (init_sender\<lparr>fail_count := 3\<rparr>))))"
  by (simp add: sender_defs consts_defs on_hard_disconnect_def init_app_def)

text \<open>
  C7, amended. The escalation calls \<^verbatim>\<open>on_hard_disconnect\<close>, which sets the status
  label to \<^verbatim>\<open>Desconectado\<close> and shows one error dialog; \<^verbatim>\<open>estado["conectado"]\<close>
  keeps its value.
\<close>

theorem C7_escalation_keeps_conectado:
  assumes "MAX_FAILS \<le> fail_count s + 1"
  shows "foldl deliver g (snd (register_fail s)) =
           g\<lparr>lbl_status := (''Desconectado'', ''#ff6b81''),
             dialogs := dialogs g @ [(''Desconexi'' @ [char_of (243::nat)] @ ''n'', hard_msg)]\<rparr>
         \<and> conectado (foldl deliver g (snd (register_fail s))) = conectado g"
  using assms by (simp add: register_fail_def Let_def on_hard_disconnect_def)

theorem C7_witness:
  "MAX_FAILS \<le> fail_count (init_sender\<lparr>fail_count := 3\<rparr>) + 1 \<and>
   conectado (foldl deliver (init_app\<lparr>conectado := True\<rparr>)
                (snd (register_fail (init_sender\<lparr>fail_count := 3\<rparr>)))) =
   conectado (init_app\<lparr>conectado := True\<rparr>)"
proof -
  have h: "MAX_FAILS \<le> fail_count (init_sender\<lparr>fail_count := 3\<rparr>) + 1"
    by (simp add: MAX_FAILS_def)
  show ?thesis
    using h C7_escalation_keeps_conectado [OF h, of "init_app\<lparr>conectado := True\<rparr>"]
    by simp
qed

section \<open>Bounded history\<close>

lemma deque_append_drop:
  assumes "length h \<le> n"
  shows "deque_append n x h = drop (length h + 1 - n) (h @ [x])"
proof (cases "length h = n")
  case True
  then show ?thesis
    by (cases h) (simp_all add: deque_append_def Let_def drop_Suc)
next
  case False
  with assms show ?thesis
    by (simp add: deque_append_def Let_def)
qed

lemma push_all_snoc: "push_all h (ds @ [d]) = deque_append DIST_HISTORY_LEN d (push_all h ds)"
  by (simp add: push_all_def append_dist_def Let_def)

lemma push_all_drop:
  "length h \<le> DIST_HISTORY_LEN \<Longrightarrow>
   push_all h ds = drop (length h + length ds - DIST_HISTORY_LEN) (h @ ds)"
proof (induction ds rule: rev_induct)
  case Nil
  then show ?case by (simp add: push_all_def)
next
  case (snoc d ds)
  let ?n = DIST_HISTORY_LEN
  let ?zs = "h @ ds"
  let ?k = "length ?zs - ?n"
  have ih: "push_all h ds = drop ?k ?zs" using snoc by simp
  have len: "length (drop ?k ?zs) \<le> ?n" by simp
  have app: "drop ?k ?zs @ [d] = drop ?k (?zs @ [d])" by simp
  have ar: "length (drop ?k ?zs) + 1 - ?n + ?k = length ?zs + 1 - ?n" by simp
  have "push_all h (ds @ [d]) = deque_append ?n d (drop ?k ?zs)"
    by (simp add: push_all_snoc ih)
  also have "\<dots> = drop (length (drop ?k ?zs) + 1 - ?n) (drop ?k ?zs @ [d])"
    by (rule deque_append_drop [OF len])
  also have "\<dots> = drop (length (drop ?k ?zs) + 1 - ?n + ?k) (?zs @ [d])"
    by (simp only: app drop_drop)
  also have "\<dots> = drop (length ?zs + 1 - ?n) (?zs @ [d])"
    by (simp only: ar)
  finally show ?case by simp
qed

text \<open>
  C9. Whatever is pushed into the empty \<^verbatim>\<open>dist_history\<close>, it never holds more than
  \<^verbatim>\<open>DIST_HISTORY_LEN\<close> samples; after \<^verbatim>\<open>DIST_HISTORY_LEN\<close> + \<open>K\<close> pushes with
  \<open>K > 0\<close> it holds the pushed samples without the first \<open>K\<close>, in the order pushed,
  and its last element is the sample pushed last.
\<close>

theorem C9_bounded_history:
  "length (push_all [] ds) \<le> DIST_HISTORY_LEN \<and>
   (0 < K \<and> length ds = DIST_HISTORY_LEN + K \<longrightarrow>
      push_all [] ds = drop K ds \<and>
      length (push_all [] ds) = DIST_HISTORY_LEN \<and>
      last (push_all [] ds) = last ds)"
proof -
  have e: "push_all [] ds = drop (length ds - DIST_HISTORY_LEN) ds"
    using push_all_drop [of "[]" ds] by simp
  show ?thesis
    by (auto simp add: e DIST_HISTORY_LEN_def)
qed

theorem C9_witness:
  "(0::nat) < 1 \<and> length samples121 = DIST_HISTORY_LEN + 1 \<and>
   push_all [] samples121 = map (\<lambda>i. Some (real i)) [1..<121] \<and>
   last (push_all [] samples121) = Some 120"
proof -
  have h: "(0::nat) < 1 \<and> length samples121 = DIST_HISTORY_LEN + 1"
    by (simp add: samples121_def DIST_HISTORY_LEN_def)
  have d: "drop 1 samples121 = map (\<lambda>i. Some (real i)) [1..<121]"
    by (simp add: samples121_def drop_map)
  have l: "last samples121 = Some 120"
    by (simp add: samples121_def last_map)
  show ?thesis
    using h d l C9_bounded_history [of samples121 1] by (simp add: last_map)
qed

section \<open>PWM gate\<close>



section \<open>Distance parser\<close>

text \<open>
  The comma literal, the \<^verbatim>\<open>null\<close> body and the structured body behave as described:
  the first is not JSON, so the fallback normalises and parses it.
\<close>

lemma parse_comma_literal:
  "fl ''12.5'' = Some 12.5 \<Longrightarrow>
   parse_distance_response fl \<lparr>json_result = None, text_body = ''12,5''\<rparr> = Some 12.5"
  by (simp add: parse_distance_response_def parse_fallback_def py_strip_def py_isspace_def
      py_lower_def py_lower_char_def comma_to_dot_def)

lemma parse_null_literal:
  "parse_distance_response fl \<lparr>json_result = Some JNull, text_body = ''null''\<rparr> = None"
  by (simp add: parse_distance_response_def)

lemma parse_structured:
  "map_of kvs ''cm'' = Some (JNum x) \<Longrightarrow>
   parse_distance_response fl \<lparr>json_result = Some (JObj kvs), text_body = t\<rparr> = Some x"
  by (simp add: parse_distance_response_def)

text \<open>
  C3 says that a bare literal with a dot, such as the body \<^verbatim>\<open>12.5\<close>, yields 12.5. That
  body is valid JSON: \<^verbatim>\<open>r.json()\<close> returns the float 12.5 without raising, the value
  is not a dict, the fallback sits in the \<^verbatim>\<open>except\<close> branch and is skipped, and the
  parser returns \<^verbatim>\<open>None\<close>, whatever \<^verbatim>\<open>float\<close> does on strings.
\<close>

theorem C3_bare_dot_literal_is_dropped:
  "parse_distance_response fl \<lparr>json_result = Some (JNum 12.5), text_body = ''12.5''\<rparr> = None"
  by (simp add: parse_distance_response_def)

section \<open>Shutdown\<close>




section \<open>Overlapping requests\<close>

text \<open>
  C8 says that at most one request is outstanding at any instant and that
  \<^verbatim>\<open>inflight\<close> is true exactly while one is. \<^verbatim>\<open>_pump\<close> tests \<^verbatim>\<open>inflight\<close> but
  only the worker sets it, so two pumps that run before the first worker has entered
  its locked block start two workers. The first takes the command and issues its
  request; the second finds no command and sets \<^verbatim>\<open>inflight\<close> to false while that
  request is outstanding; a third command then starts a second request beside it.
\<close>

theorem C8_two_requests_overlap:
  "workers (exec init_sys overlap_prefix) = [InGet ''atras'', Finished] \<and>
   \<not> inflight (disp (exec init_sys overlap_prefix)) \<and>
   workers (exec init_sys overlap_run) = [InGet ''atras'', Finished, InGet ''detener''] \<and>
   outstanding (exec init_sys overlap_run) = 2"
  by (simp add: overlap_run_def overlap_prefix_def outstanding_def sys_defs sender_defs
      consts_defs py_strip_ip Let_def)

section \<open>Coalescing within the rate-limit window\<close>














end
